theory Spec2Isabelle
  imports Main
begin

section \<open>JavaScript values read by the hook\<close>

text \<open>
  The polling hook \<^verbatim>\<open>useWebsetPolling\<close> reads optional fields and tests them for
  truthiness. An optional field is an \<open>option\<close> (\<open>None\<close> is \<^verbatim>\<open>undefined\<close>, or
  \<^verbatim>\<open>null\<close> for the identifier). A string is truthy when it is defined and non-empty, a
  boolean when it is \<^verbatim>\<open>true\<close>; arrays and objects are always truthy.
\<close>

definition truthy_string :: "string option \<Rightarrow> bool" where
  "truthy_string s = (case s of None \<Rightarrow> False | Some v \<Rightarrow> v \<noteq> [])"

definition truthy_bool :: "bool option \<Rightarrow> bool" where
  "truthy_bool b = (case b of None \<Rightarrow> False | Some v \<Rightarrow> v)"

text \<open>\<^verbatim>\<open>a || b\<close> on optional strings and on optional booleans.\<close>

definition or_string :: "string option \<Rightarrow> string option \<Rightarrow> string option" where
  "or_string a b = (if truthy_string a then a else b)"

definition or_bool :: "bool option \<Rightarrow> bool option \<Rightarrow> bool option" where
  "or_bool a b = (if truthy_bool a then a else b)"

text \<open>\<^verbatim>\<open>a && !c\<close>: the left operand itself when it is falsy, else the negation.\<close>

definition and_not :: "bool option \<Rightarrow> bool option \<Rightarrow> bool option" where
  "and_not a c = (if truthy_bool a then Some (\<not> truthy_bool c) else a)"

section \<open>Data model\<close>

text \<open>
  \<^verbatim>\<open>WebsetItem\<close>. The type declares \<^verbatim>\<open>id: string\<close>, but the hook guards with
  \<^verbatim>\<open>item.id && ...\<close>, so a missing or empty id is a value of the model. The other
  fields are payload the hook never reads; two of them stand for the rest.
\<close>

record WebsetItem =
  item_id :: "string option"
  item_name :: "string option"
  item_type :: "string option"

record Progress =
  found :: int
  analyzed :: int
  completion :: int
  time_left :: "int option"

text \<open>\<^verbatim>\<open>WebsetData\<close>, with the fields the hook reads or writes.\<close>

record WebsetData =
  webset_id :: "string option"
  external_id :: "string option"
  query :: "string option"
  entity_type :: "string option"
  status :: "string option"
  search_status :: "string option"
  items_found :: "int option"
  items_returned :: "int option"
  cost_deducted :: "string option"
  items :: "WebsetItem list option"
  is_processing :: "bool option"
  is_complete :: "bool option"
  progress :: "Progress option"
  message :: "string option"

text \<open>The payload type of the status request, as declared at the call of \<^verbatim>\<open>backendApi.get\<close>.\<close>

record ApiData =
  api_webset_id :: string
  api_status :: string
  api_search_status :: "string option"
  api_is_processing :: bool
  api_is_complete :: bool
  api_progress :: "Progress option"
  api_items_found :: int
  api_items_returned :: int
  api_items :: "WebsetItem list option"
  api_message :: string

record ApiResponse =
  success :: bool
  data :: "ApiData option"

text \<open>
  The request is awaited inside \<^verbatim>\<open>try\<close>: it either throws (network or parse error)
  or resolves to a response envelope.
\<close>

datatype FetchOutcome = Threw | Resolved ApiResponse

text \<open>
  What the hook keeps between renders: the \<^verbatim>\<open>useState\<close> cells \<open>liveData\<close> and
  \<open>isPolling\<close>, the \<^verbatim>\<open>useRef\<close> cells \<open>pollingIntervalRef\<close> (a timer handle
  or \<^verbatim>\<open>null\<close>) and \<open>pollCountRef\<close>.
\<close>

record HookState =
  liveData :: "WebsetData option"
  isPolling :: bool
  pollingIntervalRef :: "nat option"
  pollCountRef :: nat

section \<open>Merging items\<close>

text \<open>\<^verbatim>\<open>liveData?.items || initialData.items || []\<close>\<close>

definition existingItems :: "WebsetData \<Rightarrow> WebsetData option \<Rightarrow> WebsetItem list" where
  "existingItems initialData live =
     (case (case live of None \<Rightarrow> None | Some l \<Rightarrow> items l) of
        Some xs \<Rightarrow> xs
      | None \<Rightarrow> (case items initialData of Some ys \<Rightarrow> ys | None \<Rightarrow> []))"

text \<open>\<^verbatim>\<open>new Set(existing.map(item => item.id))\<close>\<close>

definition existingItemIds :: "WebsetItem list \<Rightarrow> string option set" where
  "existingItemIds existing = set (map item_id existing)"

text \<open>\<^verbatim>\<open>incoming.filter(item => item.id && !existingItemIds.has(item.id))\<close>\<close>

definition newItems :: "WebsetItem list \<Rightarrow> WebsetItem list \<Rightarrow> WebsetItem list" where
  "newItems existing incoming =
     filter (\<lambda>item. truthy_string (item_id item) \<and> item_id item \<notin> existingItemIds existing)
       incoming"

text \<open>\<^verbatim>\<open>[...existing, ...newItems]\<close>\<close>

definition mergedItems :: "WebsetItem list \<Rightarrow> WebsetItem list \<Rightarrow> WebsetItem list" where
  "mergedItems existing incoming = existing @ newItems existing incoming"

text \<open>An item that has only an id, as in \<^verbatim>\<open>{id: "1"}\<close>.\<close>

definition only_id :: "string \<Rightarrow> WebsetItem" where
  "only_id k = \<lparr>item_id = Some k, item_name = None, item_type = None\<rparr>"

section \<open>The polling decision\<close>

text \<open>\<^verbatim>\<open>liveData || initialData\<close>\<close>

definition effectiveData :: "WebsetData \<Rightarrow> WebsetData option \<Rightarrow> WebsetData" where
  "effectiveData initialData live = (case live of None \<Rightarrow> initialData | Some l \<Rightarrow> l)"

text \<open>
  The value of the \<^verbatim>\<open>useMemo\<close> named \<open>shouldPoll\<close>. It is a JavaScript value: the
  flag branch returns \<^verbatim>\<open>(a || b) && !c\<close>, which is \<^verbatim>\<open>undefined\<close> when \<open>a\<close>
  is \<^verbatim>\<open>false\<close> and \<open>b\<close> is undefined. \<open>enabled\<close> is the parameter after its
  default \<^verbatim>\<open>true\<close> has been applied.
\<close>

definition shouldPoll ::
  "string option \<Rightarrow> bool \<Rightarrow> WebsetData \<Rightarrow> WebsetData option \<Rightarrow> bool option" where
  "shouldPoll websetId enabled initialData live =
     (let eff = effectiveData initialData live in
      if \<not> truthy_string websetId \<or> \<not> enabled then Some False
      else if is_processing initialData \<noteq> None \<or> is_processing eff \<noteq> None
        then and_not (or_bool (is_processing initialData) (is_processing eff)) (is_complete eff)
      else
        let st = or_string (status eff) (status initialData) in
        if truthy_string st \<and> st \<in> set [Some ''running'', Some ''pending''] then Some True
        else if truthy_string websetId \<and> \<not> truthy_string st \<and> \<not> truthy_bool (is_complete eff)
          then Some True
        else Some False)"

section \<open>One poll\<close>

text \<open>The batch of items a payload carries: \<^verbatim>\<open>apiData.items || []\<close>\<close>

definition batch :: "ApiData \<Rightarrow> WebsetItem list" where
  "batch d = (case api_items d of None \<Rightarrow> [] | Some xs \<Rightarrow> xs)"

text \<open>The object passed to \<^verbatim>\<open>setLiveData\<close> on a successful response.\<close>

definition nextLiveData :: "WebsetData \<Rightarrow> WebsetData option \<Rightarrow> ApiData \<Rightarrow> WebsetData" where
  "nextLiveData initialData live apiData =
     (let eff = effectiveData initialData live in
      \<lparr>webset_id = Some (api_webset_id apiData),
       external_id = or_string (external_id initialData) (external_id eff),
       query = or_string (query initialData) (query eff),
       entity_type = or_string (entity_type initialData) (entity_type eff),
       status = Some (api_status apiData),
       search_status = api_search_status apiData,
       items_found = Some (api_items_found apiData),
       items_returned = Some (api_items_returned apiData),
       cost_deducted = or_string (cost_deducted initialData) (cost_deducted eff),
       items = Some (mergedItems (existingItems initialData live)
                       (batch apiData)),
       is_processing = Some (api_is_processing apiData),
       is_complete = Some (api_is_complete apiData),
       progress = api_progress apiData,
       message = Some (api_message apiData)\<rparr>)"

text \<open>\<^verbatim>\<open>setIsPolling(false)\<close> and \<^verbatim>\<open>clearInterval\<close> with the handle set to null.\<close>

definition stopPolling :: "HookState \<Rightarrow> HookState" where
  "stopPolling s = s\<lparr>isPolling := False, pollingIntervalRef := None\<rparr>"

text \<open>
  \<open>pollWebsetStatus\<close>. The callback is rebuilt by \<^verbatim>\<open>useCallback\<close> from
  \<open>websetId\<close>, \<open>initialData\<close> and \<open>liveData\<close>; these three arguments are the values
  the running callback closed over when the request was issued. The state argument is the
  hook's state at the moment the request settles.
\<close>

definition pollWebsetStatus ::
  "string option \<Rightarrow> WebsetData \<Rightarrow> WebsetData option \<Rightarrow> FetchOutcome \<Rightarrow> HookState \<Rightarrow> HookState" where
  "pollWebsetStatus websetId initialData live outcome s =
     (if \<not> truthy_string websetId then s
      else case outcome of
        Resolved response \<Rightarrow>
          (case data response of
             Some apiData \<Rightarrow>
               if success response then
                 let s1 = s\<lparr>liveData := Some (nextLiveData initialData live apiData)\<rparr>;
                     s2 = (if api_is_complete apiData then stopPolling s1 else s1)
                 in s2\<lparr>pollCountRef := 0\<rparr>
               else s
           | None \<Rightarrow> s)
      | Threw \<Rightarrow>
          (let s1 = s\<lparr>pollCountRef := pollCountRef s + 1\<rparr>
           in if pollCountRef s1 \<ge> 10 then stopPolling s1 else s1))"

text \<open>
  The callback applied to a list of outcomes, one after the other, each time by a callback
  that closed over the current \<open>liveData\<close>. This sequences the callback alone. The two
  effects of the hook (below) run on a render and write \<open>isPolling\<close>, \<open>pollCountRef\<close>
  and \<open>pollingIntervalRef\<close>, never \<open>liveData\<close>; \<open>runPolls\<close> is used for
  \<open>liveData\<close> and for runs that change no state, hence cause no render.
\<close>

fun runPolls :: "string option \<Rightarrow> WebsetData \<Rightarrow> FetchOutcome list \<Rightarrow> HookState \<Rightarrow> HookState" where
  "runPolls websetId initialData [] s = s"
| "runPolls websetId initialData (outcome # rest) s =
     runPolls websetId initialData rest
       (pollWebsetStatus websetId initialData (liveData s) outcome s)"

text \<open>A response that succeeded with payload \<open>d\<close>.\<close>

definition succeeded :: "ApiData \<Rightarrow> FetchOutcome" where
  "succeeded d = Resolved \<lparr>success = True, data = Some d\<rparr>"

text \<open>The snapshot \<^verbatim>\<open>{}\<close>, and the hook's state at mount.\<close>

definition emptyData :: WebsetData where
  "emptyData = \<lparr>webset_id = None, external_id = None, query = None, entity_type = None,
     status = None, search_status = None, items_found = None, items_returned = None,
     cost_deducted = None, items = None, is_processing = None, is_complete = None,
     progress = None, message = None\<rparr>"

definition initialState :: HookState where
  "initialState = \<lparr>liveData = None, isPolling = False, pollingIntervalRef = None,
     pollCountRef = 0\<rparr>"

text \<open>A payload for job \<open>w\<close> that is still running and carries the items \<open>xs\<close>.\<close>

definition running :: "string \<Rightarrow> WebsetItem list \<Rightarrow> ApiData" where
  "running w xs = \<lparr>api_webset_id = w, api_status = ''running'', api_search_status = None,
     api_is_processing = True, api_is_complete = False, api_progress = None,
     api_items_found = int (length xs), api_items_returned = int (length xs),
     api_items = Some xs, api_message = []\<rparr>"

section \<open>The effects\<close>

text \<open>A request in flight, identified by the values its callback closed over.\<close>

record Request =
  req_websetId :: "string option"
  req_initialData :: WebsetData
  req_liveData :: "WebsetData option"

text \<open>
  The hook between renders: its cells, the requests issued and not yet settled, and
  whether the last run of the polling effect returned its cleanup function (it does unless
  it left at the guard of lines 160 to 162).
\<close>

record Hook =
  cells :: HookState
  inFlight :: "Request list"
  cleanupPending :: bool

definition mountedHook :: Hook where
  "mountedHook = \<lparr>cells = initialState, inFlight = [], cleanupPending = False\<rparr>"

text \<open>
  A call \<^verbatim>\<open>pollWebsetStatus()\<close> made during a render's effects: with a truthy identifier
  the request is issued, by a callback that closed over this render's \<open>liveData\<close>;
  without one the callback returns before the request.
\<close>

definition issue :: "string option \<Rightarrow> WebsetData \<Rightarrow> Hook \<Rightarrow> Hook" where
  "issue websetId initialData h =
     (if truthy_string websetId
      then h\<lparr>inFlight := inFlight h @
             [\<lparr>req_websetId = websetId, req_initialData = initialData,
               req_liveData = liveData (cells h)\<rparr>]\<rparr>
      else h)"

text \<open>The effect of lines 151 to 156: fetch once when there are no items yet.\<close>

definition fetchInitialEffect :: "string option \<Rightarrow> WebsetData \<Rightarrow> bool \<Rightarrow> Hook \<Rightarrow> Hook" where
  "fetchInitialEffect websetId initialData enabled h =
     (if truthy_string websetId \<and> liveData (cells h) = None
         \<and> (items initialData = Some [] \<or> items initialData = None)
         \<and> \<not> isPolling (cells h) \<and> enabled
      then issue websetId initialData h
      else h)"

text \<open>The cleanup of the polling effect, lines 187 to 192, run before the effect runs again.\<close>

definition pollingCleanup :: "Hook \<Rightarrow> Hook" where
  "pollingCleanup h =
     (if cleanupPending h then h\<lparr>cells := (cells h)\<lparr>pollingIntervalRef := None\<rparr>\<rparr> else h)"

text \<open>
  The body of the polling effect, lines 159 to 185. \<open>timer\<close> is the handle that
  \<^verbatim>\<open>setInterval\<close> returns.
\<close>

definition pollingEffect ::
  "nat \<Rightarrow> string option \<Rightarrow> WebsetData \<Rightarrow> bool \<Rightarrow> Hook \<Rightarrow> Hook" where
  "pollingEffect timer websetId initialData enabled h =
     (let s = cells h;
          sp = truthy_bool (shouldPoll websetId enabled initialData (liveData s))
      in if \<not> truthy_string websetId \<or> \<not> enabled then h\<lparr>cleanupPending := False\<rparr>
         else if sp \<and> \<not> isPolling s \<and> pollingIntervalRef s = None then
           (issue websetId initialData
              (h\<lparr>cells := s\<lparr>isPolling := True, pollCountRef := 0\<rparr>\<rparr>))
             \<lparr>cells := s\<lparr>isPolling := True, pollCountRef := 0,
                          pollingIntervalRef := Some timer\<rparr>,
              cleanupPending := True\<rparr>
         else if \<not> sp \<and> pollingIntervalRef s \<noteq> None then
           h\<lparr>cells := stopPolling s, cleanupPending := True\<rparr>
         else h\<lparr>cleanupPending := True\<rparr>)"

text \<open>
  The effects after the first render, and after every render in which \<open>isPolling\<close> has
  changed: \<open>isPolling\<close> is a dependency of both effects, so the cleanup and both bodies
  run, in this order.
\<close>

definition renderEffects ::
  "nat \<Rightarrow> string option \<Rightarrow> WebsetData \<Rightarrow> bool \<Rightarrow> Hook \<Rightarrow> Hook" where
  "renderEffects timer websetId initialData enabled h =
     pollingEffect timer websetId initialData enabled
       (fetchInitialEffect websetId initialData enabled (pollingCleanup h))"

section \<open>Merge engine\<close>

lemma newItems_filter:
  "newItems existing incoming =
     filter (\<lambda>item. \<exists>k. item_id item = Some k \<and> k \<noteq> [] \<and> Some k \<notin> item_id ` set existing)
       incoming"
  unfolding newItems_def existingItemIds_def truthy_string_def
  by (rule filter_cong) (auto split: option.splits)

text \<open>
  C2. The merge returns the existing items followed by exactly the incoming items whose id
  is non-empty and is not the id of an existing item, in the order of the incoming batch.
  No item with a missing or empty id is appended. The function is total: nothing is
  raised. On the spec's example the result is the items 1, 2, 3.
\<close>

theorem mergedItems_appends_unseen:
  "mergedItems existing incoming =
     existing @ filter (\<lambda>item. \<exists>k. item_id item = Some k \<and> k \<noteq> []
                                  \<and> Some k \<notin> item_id ` set existing) incoming
   \<and> filter (\<lambda>item. item_id item = None \<or> item_id item = Some [])
        (drop (length existing) (mergedItems existing incoming)) = []
   \<and> mergedItems [only_id ''1''] [only_id ''2'', only_id ''1'', only_id ''3'']
       = [only_id ''1'', only_id ''2'', only_id ''3'']"
proof (intro conjI)
  show "mergedItems existing incoming =
     existing @ filter (\<lambda>item. \<exists>k. item_id item = Some k \<and> k \<noteq> []
                                  \<and> Some k \<notin> item_id ` set existing) incoming"
    by (simp add: mergedItems_def newItems_filter)
  show "filter (\<lambda>item. item_id item = None \<or> item_id item = Some [])
        (drop (length existing) (mergedItems existing incoming)) = []"
    by (auto simp: mergedItems_def newItems_filter filter_empty_conv)
  show "mergedItems [only_id ''1''] [only_id ''2'', only_id ''1'', only_id ''3'']
       = [only_id ''1'', only_id ''2'', only_id ''3'']"
    by (simp add: mergedItems_def newItems_def existingItemIds_def truthy_string_def only_id_def)
qed

theorem mergedItems_appends_unseen_witness:
  "mergedItems [only_id ''a'']
     [only_id ''b'', \<lparr>item_id = None, item_name = Some ''x'', item_type = None\<rparr>,
      only_id '''', only_id ''a'']
   = [only_id ''a'', only_id ''b'']"
  using mergedItems_appends_unseen
    [of "[only_id ''a'']"
        "[only_id ''b'', \<lparr>item_id = None, item_name = Some ''x'', item_type = None\<rparr>,
          only_id '''', only_id ''a'']"]
  by (simp add: only_id_def)

lemma newItems_again: "newItems (mergedItems a b) b = []"
  unfolding mergedItems_def newItems_def existingItemIds_def
  by (auto simp: filter_empty_conv)

lemma mergedItems_idem: "mergedItems (mergedItems a b) b = mergedItems a b"
  using newItems_again[of a b] by (simp add: mergedItems_def[of "mergedItems a b" b])

lemma existingItems_next:
  "existingItems seed (Some (nextLiveData seed live d)) =
     mergedItems (existingItems seed live) (batch d)"
  by (simp add: existingItems_def nextLiveData_def Let_def)

lemma or_string_absorb: "or_string a (or_string a b) = or_string a b"
  by (simp add: or_string_def)

lemma nextLiveData_twice:
  "nextLiveData seed (Some (nextLiveData seed live d)) d = nextLiveData seed live d"
proof -
  have "mergedItems (existingItems seed (Some (nextLiveData seed live d))) (batch d)
        = mergedItems (existingItems seed live) (batch d)"
    by (simp add: existingItems_next mergedItems_idem)
  then show ?thesis
    by (simp add: nextLiveData_def[of seed "Some _"] effectiveData_def Let_def)
       (simp add: nextLiveData_def Let_def or_string_absorb effectiveData_def)
qed

lemma poll_twice:
  "runPolls w seed [Resolved r, Resolved r] s = runPolls w seed [Resolved r] s"
  by (auto simp: pollWebsetStatus_def Let_def stopPolling_def nextLiveData_twice
      split: option.splits)

lemma poll_twice_overlap:
  "pollWebsetStatus w seed live (Resolved r) (pollWebsetStatus w seed live (Resolved r) s)
     = pollWebsetStatus w seed live (Resolved r) s"
  by (auto simp: pollWebsetStatus_def Let_def stopPolling_def split: option.splits)

text \<open>
  C3. Merging a batch that has already been merged adds nothing:
  \<open>merge (merge A B) B = merge A B\<close>. Hence two polls, one after the other, that receive
  the same response leave the hook in the state one poll leaves it in; in particular the
  item count is the same. The same holds for two overlapping polls issued by one callback.
\<close>

theorem merge_idempotent:
  "mergedItems (mergedItems a b) b = mergedItems a b
   \<and> runPolls w seed [Resolved r, Resolved r] s = runPolls w seed [Resolved r] s
   \<and> length (existingItems seed (liveData (runPolls w seed [Resolved r, Resolved r] s)))
       = length (existingItems seed (liveData (runPolls w seed [Resolved r] s)))
   \<and> pollWebsetStatus w seed live (Resolved r) (pollWebsetStatus w seed live (Resolved r) s)
       = pollWebsetStatus w seed live (Resolved r) s"
  by (simp only: mergedItems_idem poll_twice poll_twice_overlap simp_thms)

theorem merge_idempotent_witness:
  "length (existingItems emptyData (liveData (runPolls (Some ''w1'') emptyData
      [succeeded (running ''w1'' [only_id ''a'', only_id ''b'']),
       succeeded (running ''w1'' [only_id ''a'', only_id ''b''])] initialState))) = 2"
  using merge_idempotent
    [of "[]" "[]" "Some ''w1''" emptyData
        "\<lparr>success = True, data = Some (running ''w1'' [only_id ''a'', only_id ''b''])\<rparr>"
        initialState None]
  by (simp add: succeeded_def pollWebsetStatus_def truthy_string_def running_def
      nextLiveData_def existingItems_def emptyData_def initialState_def batch_def
      mergedItems_def newItems_def existingItemIds_def only_id_def effectiveData_def)

lemma filter_absent:
  "v \<notin> f ` set xs \<Longrightarrow> filter (\<lambda>i. f i = v) xs = []"
  by (induction xs) auto

lemma filter_id_le1:
  "distinct (map f xs) \<Longrightarrow> length (filter (\<lambda>i. f i = v) xs) \<le> 1"
proof (induction xs)
  case Nil
  then show ?case by simp
next
  case (Cons a xs)
  show ?case
  proof (cases "f a = v")
    case True
    from Cons.prems have "f a \<notin> f ` set xs" by simp
    with True have "filter (\<lambda>i. f i = v) xs = []"
      by (simp add: filter_absent)
    with True show ?thesis by simp
  next
    case False
    with Cons show ?thesis by simp
  qed
qed

lemma newItems_dups:
  "k \<noteq> [] \<Longrightarrow> Some k \<notin> item_id ` set a \<Longrightarrow>
   filter (\<lambda>i. item_id i = Some k) (newItems a b) = filter (\<lambda>i. item_id i = Some k) b"
  unfolding newItems_def existingItemIds_def truthy_string_def
  by (induction b) auto

text \<open>
  C10. One merge step deduplicates against the accumulated items only, never inside the
  incoming batch: for a non-empty id \<open>k\<close> that no accumulated item has, the merged
  sequence holds every occurrence of \<open>k\<close> in the batch, in order; with two or more
  occurrences the merged sequence has a duplicate id.
\<close>

theorem duplicates_within_batch_kept:
  assumes "k \<noteq> []" and "Some k \<notin> item_id ` set existing"
  shows "filter (\<lambda>i. item_id i = Some k) (mergedItems existing incoming)
           = filter (\<lambda>i. item_id i = Some k) incoming
         \<and> (2 \<le> length (filter (\<lambda>i. item_id i = Some k) incoming)
              \<longrightarrow> \<not> distinct (map item_id (mergedItems existing incoming)))"
proof -
  have eq: "filter (\<lambda>i. item_id i = Some k) (mergedItems existing incoming)
           = filter (\<lambda>i. item_id i = Some k) incoming"
    using assms by (simp add: mergedItems_def newItems_dups filter_absent)
  show ?thesis
  proof (intro conjI impI)
    show "filter (\<lambda>i. item_id i = Some k) (mergedItems existing incoming)
           = filter (\<lambda>i. item_id i = Some k) incoming" by (rule eq)
  next
    assume two: "2 \<le> length (filter (\<lambda>i. item_id i = Some k) incoming)"
    show "\<not> distinct (map item_id (mergedItems existing incoming))"
    proof
      assume "distinct (map item_id (mergedItems existing incoming))"
      then have "length (filter (\<lambda>i. item_id i = Some k) (mergedItems existing incoming)) \<le> 1"
        by (rule filter_id_le1)
      with eq two show False by simp
    qed
  qed
qed

theorem duplicates_within_batch_kept_witness:
  "''2'' \<noteq> [] \<and> Some ''2'' \<notin> item_id ` set [only_id ''1'']
   \<and> 2 \<le> length (filter (\<lambda>i. item_id i = Some ''2'')
             [only_id ''2'', only_id ''1'', only_id ''2''])
   \<and> filter (\<lambda>i. item_id i = Some ''2'')
        (mergedItems [only_id ''1''] [only_id ''2'', only_id ''1'', only_id ''2''])
       = [only_id ''2'', only_id ''2'']
   \<and> \<not> distinct (map item_id
        (mergedItems [only_id ''1''] [only_id ''2'', only_id ''1'', only_id ''2'']))"
proof -
  have h1: "''2'' \<noteq> []" by simp
  have h2: "Some ''2'' \<notin> item_id ` set [only_id ''1'']" by (simp add: only_id_def)
  have h3: "2 \<le> length (filter (\<lambda>i. item_id i = Some ''2'')
             [only_id ''2'', only_id ''1'', only_id ''2''])" by (simp add: only_id_def)
  show ?thesis
    using h1 h2 h3 duplicates_within_batch_kept
      [OF h1 h2, of "[only_id ''2'', only_id ''1'', only_id ''2'']"]
    by (simp add: only_id_def)
qed

section \<open>Polling decision\<close>

text \<open>
  A live snapshot that is complete, whose status string still says running, and where
  neither snapshot defines \<open>is_processing\<close>: the status rule answers before
  \<open>is_complete\<close> is looked at, and \<open>shouldPoll\<close> is \<^verbatim>\<open>true\<close>.
\<close>

theorem shouldPoll_complete_counterexample:
  "is_complete (emptyData\<lparr>status := Some ''running'', is_complete := Some True\<rparr>) = Some True
   \<and> shouldPoll (Some ''w1'') True emptyData
        (Some (emptyData\<lparr>status := Some ''running'', is_complete := Some True\<rparr>)) = Some True"
  by (simp add: shouldPoll_def emptyData_def effectiveData_def truthy_string_def or_string_def)

text \<open>
  C4, amended. With \<open>is_complete = true\<close> in the live snapshot, \<open>shouldPoll\<close> is falsy
  (\<^verbatim>\<open>false\<close> or \<^verbatim>\<open>undefined\<close>) for every identifier and every value of
  \<open>enabled\<close>, provided the seed or the live snapshot defines \<open>is_processing\<close>, or the
  status \<^verbatim>\<open>live.status || seed.status\<close> is neither running nor pending. It is exactly
  \<^verbatim>\<open>false\<close> when the live snapshot defines \<open>is_processing\<close>, which every snapshot
  stored by the hook does.
\<close>

theorem shouldPoll_complete:
  assumes "is_complete l = Some True"
    and "is_processing seed \<noteq> None \<or> is_processing l \<noteq> None
         \<or> or_string (status l) (status seed) \<notin> {Some ''running'', Some ''pending''}"
  shows "\<not> truthy_bool (shouldPoll w en seed (Some l))
         \<and> (is_processing l \<noteq> None \<longrightarrow> shouldPoll w en seed (Some l) = Some False)"
  using assms
  by (auto simp: shouldPoll_def effectiveData_def Let_def and_not_def or_bool_def
      truthy_bool_def split: option.splits)

theorem shouldPoll_complete_witness:
  "shouldPoll (Some ''w1'') True emptyData
     (Some (emptyData\<lparr>status := Some ''running'', is_processing := Some True,
                       is_complete := Some True\<rparr>)) = Some False"
  using shouldPoll_complete
    [of "emptyData\<lparr>status := Some ''running'', is_processing := Some True,
                       is_complete := Some True\<rparr>" emptyData "Some ''w1''" True]
  by (simp add: emptyData_def)

text \<open>
  The empty string is a non-null identifier, and the guard \<^verbatim>\<open>!websetId\<close> rejects it.
\<close>

theorem shouldPoll_bootstrap_counterexample:
  "shouldPoll (Some []) True emptyData None = Some False"
  by (simp add: shouldPoll_def truthy_string_def)

text \<open>
  C9, amended. For every non-null and non-empty identifier, with \<open>enabled = true\<close>, no
  live snapshot, a seed that defines neither \<open>is_processing\<close> nor \<open>status\<close>, and
  \<open>is_complete\<close> not true, \<open>shouldPoll\<close> is \<^verbatim>\<open>true\<close>; so it is for the identifier
  w1 and the seed \<^verbatim>\<open>{}\<close>.
\<close>

theorem shouldPoll_bootstrap:
  assumes "truthy_string w" and "is_processing seed = None" and "status seed = None"
    and "is_complete seed \<noteq> Some True"
  shows "shouldPoll w True seed None = Some True
         \<and> shouldPoll (Some ''w1'') True emptyData None = Some True"
  using assms
  by (auto simp: shouldPoll_def effectiveData_def Let_def or_string_def truthy_string_def
      truthy_bool_def emptyData_def split: option.splits)

theorem shouldPoll_bootstrap_witness:
  "truthy_string (Some ''w2'') \<and> is_processing (emptyData\<lparr>is_complete := Some False\<rparr>) = None
   \<and> status (emptyData\<lparr>is_complete := Some False\<rparr>) = None
   \<and> is_complete (emptyData\<lparr>is_complete := Some False\<rparr>) \<noteq> Some True
   \<and> shouldPoll (Some ''w2'') True (emptyData\<lparr>is_complete := Some False\<rparr>) None = Some True"
proof -
  have h1: "truthy_string (Some ''w2'')" by (simp add: truthy_string_def)
  have h2: "is_processing (emptyData\<lparr>is_complete := Some False\<rparr>) = None"
    by (simp add: emptyData_def)
  have h3: "status (emptyData\<lparr>is_complete := Some False\<rparr>) = None"
    by (simp add: emptyData_def)
  have h4: "is_complete (emptyData\<lparr>is_complete := Some False\<rparr>) \<noteq> Some True"
    by simp
  show ?thesis
    using h1 h2 h3 h4 shouldPoll_bootstrap [OF h1 h2 h3 h4] by simp
qed

section \<open>Error budget\<close>

lemma poll_Threw:
  "truthy_string w \<Longrightarrow>
   pollWebsetStatus w seed live Threw s =
     (if 10 \<le> pollCountRef s + 1
      then stopPolling (s\<lparr>pollCountRef := pollCountRef s + 1\<rparr>)
      else s\<lparr>pollCountRef := pollCountRef s + 1\<rparr>)"
  by (simp add: pollWebsetStatus_def Let_def)

lemma poll_succeeded:
  "truthy_string w \<Longrightarrow>
   pollWebsetStatus w seed live (succeeded d) s =
     (if api_is_complete d
      then stopPolling (s\<lparr>liveData := Some (nextLiveData seed live d)\<rparr>)
      else s\<lparr>liveData := Some (nextLiveData seed live d)\<rparr>)\<lparr>pollCountRef := 0\<rparr>"
  by (simp add: pollWebsetStatus_def Let_def succeeded_def)

lemma poll_unsuccessful:
  "\<not> success r \<or> data r = None \<Longrightarrow> pollWebsetStatus w seed live (Resolved r) s = s"
  by (auto simp: pollWebsetStatus_def split: option.splits)

lemma liveData_poll_Threw:
  "liveData (pollWebsetStatus w seed live Threw s) = liveData s"
  by (simp add: pollWebsetStatus_def Let_def stopPolling_def)

text \<open>
  C5, evaluated on the hook. The hook is polling, its counter is at 9 and the policy still
  says poll. The 10th request in a row that throws makes the callback set \<open>isPolling\<close>
  to false, clear the timer and leave the counter at 10, as the claim says. The change of
  \<open>isPolling\<close> makes the hook render, and the polling effect starts again: \<open>isPolling\<close>
  is true, a timer is armed, a request is in flight and the counter is 0 although no
  request has succeeded. Polling does not stop at the threshold.
\<close>

theorem failure_stop_restarted:
  assumes "truthy_string w" and "enabled"
    and "truthy_bool (shouldPoll w enabled seed (liveData (cells h)))"
    and "isPolling (cells h)" and "pollCountRef (cells h) = 9"
  shows "(let stopped = h\<lparr>cells := pollWebsetStatus w seed live Threw (cells h)\<rparr>;
              again = renderEffects timer w seed enabled stopped
          in \<not> isPolling (cells stopped)
             \<and> pollingIntervalRef (cells stopped) = None
             \<and> pollCountRef (cells stopped) = 10
             \<and> isPolling (cells again)
             \<and> pollingIntervalRef (cells again) = Some timer
             \<and> pollCountRef (cells again) = 0
             \<and> length (inFlight h) < length (inFlight again))"
proof -
  let ?s = "pollWebsetStatus w seed live Threw (cells h)"
  have stop: "?s = stopPolling ((cells h)\<lparr>pollCountRef := 10\<rparr>)"
    using assms(1,5) by (simp add: poll_Threw)
  have sp: "truthy_bool (shouldPoll w enabled seed (liveData ?s))"
    using assms(3) by (simp add: liveData_poll_Threw)
  have stopped: "\<not> isPolling ?s" "pollingIntervalRef ?s = None" "pollCountRef ?s = 10"
    by (simp_all add: stop stopPolling_def)
  let ?c = "pollingCleanup (h\<lparr>cells := ?s\<rparr>)"
  have c: "cells ?c = ?s" "inFlight ?c = inFlight h"
    using stopped(2) by (simp_all add: pollingCleanup_def stop stopPolling_def)
  let ?a = "fetchInitialEffect w seed enabled ?c"
  have a: "cells ?a = ?s" "length (inFlight h) \<le> length (inFlight ?a)"
    using c by (simp_all add: fetchInitialEffect_def issue_def)
  let ?b = "pollingEffect timer w seed enabled ?a"
  have b: "isPolling (cells ?b)" "pollingIntervalRef (cells ?b) = Some timer"
    "pollCountRef (cells ?b) = 0" "length (inFlight ?a) < length (inFlight ?b)"
    using assms(1,2) sp stopped a(1)
    by (simp_all add: pollingEffect_def Let_def issue_def)
  from a(2) b(4) have "length (inFlight h) < length (inFlight ?b)" by simp
  with stopped b show ?thesis
    by (simp add: Let_def renderEffects_def)
qed

theorem failure_stop_restarted_witness:
  "truthy_string (Some ''w1'')
   \<and> truthy_bool (shouldPoll (Some ''w1'') True emptyData None)
   \<and> \<not> isPolling (pollWebsetStatus (Some ''w1'') emptyData None Threw
          (initialState\<lparr>isPolling := True, pollCountRef := 9\<rparr>))
   \<and> isPolling (cells (renderEffects 1 (Some ''w1'') emptyData True
        \<lparr>cells = pollWebsetStatus (Some ''w1'') emptyData None Threw
                   (initialState\<lparr>isPolling := True, pollCountRef := 9\<rparr>),
         inFlight = [], cleanupPending = True\<rparr>))
   \<and> pollCountRef (cells (renderEffects 1 (Some ''w1'') emptyData True
        \<lparr>cells = pollWebsetStatus (Some ''w1'') emptyData None Threw
                   (initialState\<lparr>isPolling := True, pollCountRef := 9\<rparr>),
         inFlight = [], cleanupPending = True\<rparr>)) = 0"
proof -
  let ?h = "\<lparr>cells = initialState\<lparr>isPolling := True, pollCountRef := 9\<rparr>,
             inFlight = [], cleanupPending = True\<rparr>"
  have h1: "truthy_string (Some ''w1'')" by (simp add: truthy_string_def)
  have h2: "True" by simp
  have h3: "truthy_bool (shouldPoll (Some ''w1'') True emptyData (liveData (cells ?h)))"
    by (simp add: shouldPoll_def truthy_string_def truthy_bool_def emptyData_def
        effectiveData_def or_string_def initialState_def)
  have h4: "isPolling (cells ?h)" by simp
  have h5: "pollCountRef (cells ?h) = 9" by simp
  have h3': "truthy_bool (shouldPoll (Some ''w1'') True emptyData None)"
    using h3 by (simp add: initialState_def)
  show ?thesis
    using h1 h3' failure_stop_restarted [OF h1 h2 h3 h4 h5, of None 1]
    by (simp add: Let_def)
qed

text \<open>
  A response with \<^verbatim>\<open>success: false\<close> leaves the counter at 0, where a thrown error
  makes it 1.
\<close>

theorem unsuccessful_response_counterexample:
  "pollCountRef (pollWebsetStatus (Some ''w1'') emptyData None
       (Resolved \<lparr>success = False, data = None\<rparr>) initialState) = 0
   \<and> pollCountRef (pollWebsetStatus (Some ''w1'') emptyData None Threw initialState) = 1"
  by (simp add: pollWebsetStatus_def truthy_string_def initialState_def)

text \<open>
  C6, amended. A response whose envelope has \<^verbatim>\<open>success: false\<close> (or carries no
  payload) is only logged: it changes nothing in the hook's state. It neither increments
  nor resets the failure counter, so any number of such responses in a row uses none of
  the budget of 10; only a request that throws counts.
\<close>

theorem unsuccessful_response_ignored:
  assumes "\<not> success r \<or> data r = None"
  shows "pollWebsetStatus w seed live (Resolved r) s = s
         \<and> runPolls w seed (replicate n (Resolved r)) s = s"
proof
  show "pollWebsetStatus w seed live (Resolved r) s = s"
    using assms by (rule poll_unsuccessful)
  show "runPolls w seed (replicate n (Resolved r)) s = s"
    using assms by (induction n) (simp_all add: poll_unsuccessful)
qed

theorem unsuccessful_response_ignored_witness:
  "runPolls (Some ''w1'') emptyData (replicate 10 (Resolved \<lparr>success = False, data = None\<rparr>))
     (initialState\<lparr>isPolling := True, pollingIntervalRef := Some 7\<rparr>)
   = initialState\<lparr>isPolling := True, pollingIntervalRef := Some 7\<rparr>"
  using unsuccessful_response_ignored
    [of "\<lparr>success = False, data = None\<rparr>" "Some ''w1''" emptyData None
        "initialState\<lparr>isPolling := True, pollingIntervalRef := Some 7\<rparr>" 10]
  by simp

section \<open>Applying a response\<close>

lemma liveData_poll_succeeded:
  "truthy_string w \<Longrightarrow>
   liveData (pollWebsetStatus w seed live (succeeded d) s) = Some (nextLiveData seed live d)"
  by (simp add: poll_succeeded stopPolling_def)

text \<open>
  The hook has moved on to job w2 and stores a snapshot of w2. A request issued earlier
  for w1, by a callback that closed over \<open>liveData = null\<close>, now succeeds: the stored
  snapshot is replaced by one for w1 holding only the items of the w1 response.
\<close>

theorem stale_response_counterexample:
  "map_option webset_id (liveData
      (pollWebsetStatus (Some ''w2'') emptyData None
         (succeeded (running ''w2'' [only_id ''x''])) initialState))
     = Some (Some ''w2'')
   \<and> map_option webset_id (liveData
      (pollWebsetStatus (Some ''w1'') emptyData None
         (succeeded (running ''w1'' [only_id ''a'']))
         (pollWebsetStatus (Some ''w2'') emptyData None
            (succeeded (running ''w2'' [only_id ''x''])) initialState)))
     = Some (Some ''w1'')
   \<and> map_option items (liveData
      (pollWebsetStatus (Some ''w1'') emptyData None
         (succeeded (running ''w1'' [only_id ''a'']))
         (pollWebsetStatus (Some ''w2'') emptyData None
            (succeeded (running ''w2'' [only_id ''x''])) initialState)))
     = Some (Some [only_id ''a''])"
  by (simp add: liveData_poll_succeeded truthy_string_def nextLiveData_def running_def
      Let_def existingItems_def emptyData_def batch_def mergedItems_def newItems_def
      existingItemIds_def only_id_def)

text \<open>
  C7, amended. A successful response is applied whatever the hook's state is when it
  arrives and whatever identifier is active by then; no check compares the response with
  the active identifier. The stored snapshot becomes the one built from the response: its
  \<open>webset_id\<close> is the response's, and its items are the response's batch merged into
  the items the callback closed over when the request was issued.
\<close>

theorem stale_response_applied:
  assumes "truthy_string w"
  shows "liveData (pollWebsetStatus w seed live (succeeded d) s)
           = Some (nextLiveData seed live d)
         \<and> webset_id (nextLiveData seed live d) = Some (api_webset_id d)
         \<and> items (nextLiveData seed live d)
             = Some (mergedItems (existingItems seed live) (batch d))"
  using assms by (simp add: liveData_poll_succeeded) (simp add: nextLiveData_def Let_def)

theorem stale_response_applied_witness:
  "truthy_string (Some ''w1'')
   \<and> liveData (pollWebsetStatus (Some ''w1'') emptyData None
        (succeeded (running ''w1'' [only_id ''a'']))
        (initialState\<lparr>liveData := Some (emptyData\<lparr>webset_id := Some ''w2''\<rparr>)\<rparr>))
     = Some (nextLiveData emptyData None (running ''w1'' [only_id ''a'']))"
proof -
  have h: "truthy_string (Some ''w1'')" by (simp add: truthy_string_def)
  show ?thesis
    using h stale_response_applied [OF h, of emptyData None "running ''w1'' [only_id ''a'']"
        "initialState\<lparr>liveData := Some (emptyData\<lparr>webset_id := Some ''w2''\<rparr>)\<rparr>"]
    by simp
qed

text \<open>
  The prior live snapshot defines \<open>query\<close> as A, the seed passed at this render defines
  it as B: the new snapshot takes B, the seed's value.
\<close>

theorem passthrough_counterexample:
  "query (emptyData\<lparr>query := Some ''A''\<rparr>) = Some ''A''
   \<and> query (nextLiveData (emptyData\<lparr>query := Some ''B''\<rparr>)
        (Some (emptyData\<lparr>query := Some ''A''\<rparr>)) (running ''w1'' [])) = Some ''B''"
  by (simp add: nextLiveData_def Let_def or_string_def truthy_string_def emptyData_def)

text \<open>
  C8, amended. On every successful merge each of \<open>query\<close>, \<open>entity_type\<close>,
  \<open>external_id\<close> and \<open>cost_deducted\<close> of the new live snapshot is the seed's value when
  that is defined and non-empty; the prior live snapshot (the seed itself when there is
  none) is the fallback.
\<close>

theorem passthrough_seed_first:
  "query (nextLiveData seed live d)
     = (if truthy_string (query seed) then query seed else query (effectiveData seed live))
   \<and> entity_type (nextLiveData seed live d)
     = (if truthy_string (entity_type seed) then entity_type seed
        else entity_type (effectiveData seed live))
   \<and> external_id (nextLiveData seed live d)
     = (if truthy_string (external_id seed) then external_id seed
        else external_id (effectiveData seed live))
   \<and> cost_deducted (nextLiveData seed live d)
     = (if truthy_string (cost_deducted seed) then cost_deducted seed
        else cost_deducted (effectiveData seed live))"
  by (simp add: nextLiveData_def Let_def or_string_def)

theorem passthrough_seed_first_witness:
  "query (nextLiveData emptyData (Some (emptyData\<lparr>query := Some ''A''\<rparr>)) (running ''w1'' []))
     = Some ''A''
   \<and> query (nextLiveData (emptyData\<lparr>query := Some ''B''\<rparr>) None (running ''w1'' []))
     = Some ''B''"
  using passthrough_seed_first
      [of emptyData "Some (emptyData\<lparr>query := Some ''A''\<rparr>)" "running ''w1'' []"]
    passthrough_seed_first [of "emptyData\<lparr>query := Some ''B''\<rparr>" None "running ''w1'' []"]
  by (simp add: truthy_string_def emptyData_def effectiveData_def)

section \<open>Accumulated items\<close>

lemma mount_issues_two_requests:
  "inFlight (renderEffects timer (Some ''w1'') emptyData True mountedHook)
     = [\<lparr>req_websetId = Some ''w1'', req_initialData = emptyData, req_liveData = None\<rparr>,
        \<lparr>req_websetId = Some ''w1'', req_initialData = emptyData, req_liveData = None\<rparr>]"
  by (simp add: renderEffects_def pollingCleanup_def fetchInitialEffect_def pollingEffect_def
      issue_def mountedHook_def initialState_def emptyData_def shouldPoll_def Let_def
      truthy_string_def truthy_bool_def effectiveData_def or_string_def)

text \<open>
  C1, evaluated on the hook. The claim: once an item is in the merged sequence no later
  merge removes it. At mount with identifier w1 and the seed \<^verbatim>\<open>{}\<close> both effects call
  the same callback, so two requests are in flight whose callback closed over
  \<open>liveData = null\<close>. The response with the items a, b is applied first and the merged
  items are a, b; the response with the item a is applied second, is merged into the
  empty sequence its callback closed over, and the merged items are a alone: b is removed.
\<close>

theorem overlapping_polls_counterexample:
  "existingItems emptyData (liveData
      (pollWebsetStatus (Some ''w1'') emptyData None
         (succeeded (running ''w1'' [only_id ''a'', only_id ''b''])) initialState))
     = [only_id ''a'', only_id ''b'']
   \<and> existingItems emptyData (liveData
      (pollWebsetStatus (Some ''w1'') emptyData None
         (succeeded (running ''w1'' [only_id ''a'']))
         (pollWebsetStatus (Some ''w1'') emptyData None
            (succeeded (running ''w1'' [only_id ''a'', only_id ''b''])) initialState)))
     = [only_id ''a'']"
  by (simp add: liveData_poll_succeeded truthy_string_def nextLiveData_def running_def
      Let_def existingItems_def emptyData_def batch_def mergedItems_def newItems_def
      existingItemIds_def only_id_def)

end
